theory Spec2Isabelle
  imports Main "HOL-Library.Finite_Map"
begin

section \<open>Token lifecycle: the credential record and its two network operations\<close>

text \<open>
  The credential record is the interface \<^verbatim>\<open>CustomJWT\<close> of the auth options module:
  every field is optional in the source (\<^verbatim>\<open>accessToken?: string\<close> and so on), hence
  an \<open>option\<close> here. The claims inherited from next-auth's \<^verbatim>\<open>JWT\<close> are kept in one
  field, since the module only ever copies them (\<^verbatim>\<open>{ ...token, ... }\<close>).
\<close>

datatype Role = ADMIN | TEACHER | STUDENT

record BackendUser =
  user_id :: int
  username :: string
  email :: string
  role :: Role
  is_marked :: bool

record JWT =
  jwt_name :: "string option"
  jwt_email :: "string option"
  jwt_picture :: "string option"
  jwt_sub :: "string option"

record CustomJWT =
  jwt_claims :: JWT
  accessToken :: "string option"
  refreshToken :: "string option"
  accessTokenExpires :: "int option"
  user :: "BackendUser option"
  error :: "string option"

text \<open>
  JavaScript truthiness of an optional string and of an optional number, as tested by
  \<^verbatim>\<open>!token.refreshToken\<close> and \<^verbatim>\<open>customToken.accessTokenExpires && ...\<close>:
  \<^verbatim>\<open>undefined\<close>, the empty string and \<^verbatim>\<open>0\<close> are falsy.
\<close>

fun truthy_string :: "string option \<Rightarrow> bool" where
  "truthy_string None = False"
| "truthy_string (Some s) = (s \<noteq> [])"

fun truthy_number :: "int option \<Rightarrow> bool" where
  "truthy_number None = False"
| "truthy_number (Some n) = (n \<noteq> 0)"

subsection \<open>The outside world: backend endpoints and the clock\<close>

text \<open>
  The two \<^verbatim>\<open>axios.post\<close> calls and \<^verbatim>\<open>Date.now()\<close> are the module's only effects.
  The environment fixes what the backend answers (\<open>None\<close>: the call throws, on a
  network error or a non-2xx status) and what the clock shows at its k-th reading
  (milliseconds since the epoch). The world records how many clock readings were taken
  and which requests were sent, in order.
\<close>

record refresh_response =
  access :: string
  refresh :: "string option"

record login_response =
  access_token :: string
  refresh_token :: string
  backendUser :: BackendUser

datatype request =
    TokenRefresh string
  | GoogleCallback "string option" "string option"

record env =
  Date_now :: "nat \<Rightarrow> nat"
  post_token_refresh :: "string \<Rightarrow> refresh_response option"
  post_google_callback :: "string option \<Rightarrow> string option \<Rightarrow> login_response option"

record world =
  clock_reads :: nat
  sent :: "request list"

definition read_clock :: "env \<Rightarrow> world \<Rightarrow> nat \<times> world" where
  "read_clock e w = (Date_now e (clock_reads w), w\<lparr>clock_reads := Suc (clock_reads w)\<rparr>)"

definition axios_post_refresh :: "env \<Rightarrow> string \<Rightarrow> world \<Rightarrow> refresh_response option \<times> world" where
  "axios_post_refresh e r w = (post_token_refresh e r, w\<lparr>sent := sent w @ [TokenRefresh r]\<rparr>)"

definition axios_post_google ::
  "env \<Rightarrow> string option \<Rightarrow> string option \<Rightarrow> world \<Rightarrow> login_response option \<times> world" where
  "axios_post_google e a i w = (post_google_callback e a i, w\<lparr>sent := sent w @ [GoogleCallback a i]\<rparr>)"

text \<open>The lifetime both operations add to the clock: \<^verbatim>\<open>5 * 60 * 1000\<close> milliseconds.\<close>

definition lifetime :: int where
  "lifetime = 5 * 60 * 1000"

subsection \<open>\<^verbatim>\<open>refreshAccessToken\<close>\<close>

text \<open>
  The branch without a usable refresh token returns before any effect. Otherwise one
  request is sent; the clock is read only after a response arrived; the \<^verbatim>\<open>catch\<close>
  branch resets the expiry to \<^verbatim>\<open>0\<close> and leaves \<^verbatim>\<open>user\<close> as it is. Past the guard
  the refresh token is a non-empty string; the inner \<open>None\<close> case only completes the
  case distinction.
\<close>

definition refreshAccessToken :: "env \<Rightarrow> CustomJWT \<Rightarrow> world \<Rightarrow> CustomJWT \<times> world" where
  "refreshAccessToken e token w =
     (if \<not> truthy_string (refreshToken token)
      then (token\<lparr>error := Some ''MissingRefreshTokenError''\<rparr>, w)
      else
        (case refreshToken token of
           None \<Rightarrow> (token\<lparr>error := Some ''MissingRefreshTokenError''\<rparr>, w)
         | Some r \<Rightarrow>
            (case axios_post_refresh e r w of
               (Some response, w1) \<Rightarrow>
                 (case read_clock e w1 of
                    (now, w2) \<Rightarrow>
                      (token\<lparr>accessToken := Some (access response),
                             refreshToken := (case refresh response of
                                                None \<Rightarrow> refreshToken token
                                              | Some r' \<Rightarrow> Some r'),
                             accessTokenExpires := Some (int now + lifetime),
                             error := None\<rparr>, w2))
             | (None, w1) \<Rightarrow>
                 (token\<lparr>error := Some ''RefreshAccessTokenError'',
                        accessToken := None,
                        refreshToken := None,
                        accessTokenExpires := Some 0\<rparr>, w1))))"

subsection \<open>The \<^verbatim>\<open>jwt\<close> callback\<close>

text \<open>
  \<^verbatim>\<open>account\<close> and \<^verbatim>\<open>user\<close> are objects or absent; only the account's provider and
  its two Google tokens are read.
\<close>

record Account =
  provider :: string
  google_access_token :: "string option"
  google_id_token :: "string option"

record NextAuthUser =
  na_id :: string
  na_name :: "string option"
  na_email :: "string option"

text \<open>Lines 170 to 194: the part every call that is not a Google sign-in runs through.\<close>

definition refresh_or_give_up :: "env \<Rightarrow> CustomJWT \<Rightarrow> world \<Rightarrow> CustomJWT \<times> world" where
  "refresh_or_give_up e customToken w =
     (if truthy_string (refreshToken customToken)
      then refreshAccessToken e customToken w
      else (customToken\<lparr>error := Some ''MissingRefreshTokenError'',
                        accessToken := None,
                        accessTokenExpires := None,
                        user := None\<rparr>, w))"

definition subsequent_call :: "env \<Rightarrow> CustomJWT \<Rightarrow> world \<Rightarrow> CustomJWT \<times> world" where
  "subsequent_call e customToken w =
     (if truthy_number (accessTokenExpires customToken)
      then (case read_clock e w of
              (now, w1) \<Rightarrow>
                (case accessTokenExpires customToken of
                   Some expires \<Rightarrow>
                     if int now < expires then (customToken, w1)
                     else refresh_or_give_up e customToken w1
                 | None \<Rightarrow> refresh_or_give_up e customToken w1))
      else refresh_or_give_up e customToken w)"

text \<open>Lines 116 to 168: the exchange of the Google tokens on the initial sign-in.\<close>

definition initial_sign_in :: "env \<Rightarrow> CustomJWT \<Rightarrow> Account \<Rightarrow> world \<Rightarrow> CustomJWT \<times> world" where
  "initial_sign_in e customToken account w =
     (case axios_post_google e (google_access_token account) (google_id_token account) w of
        (Some response, w1) \<Rightarrow>
          (case read_clock e w1 of
             (now, w2) \<Rightarrow>
               (customToken\<lparr>accessToken := Some (access_token response),
                            refreshToken := Some (refresh_token response),
                            accessTokenExpires := Some (int now + lifetime),
                            user := Some (backendUser response),
                            error := None\<rparr>, w2))
      | (None, w1) \<Rightarrow>
          (customToken\<lparr>error := Some ''BackendLoginFailed'',
                       accessToken := None,
                       refreshToken := None,
                       accessTokenExpires := None,
                       user := None\<rparr>, w1))"

definition jwt ::
  "env \<Rightarrow> CustomJWT \<Rightarrow> NextAuthUser option \<Rightarrow> Account option \<Rightarrow> world \<Rightarrow> CustomJWT \<times> world" where
  "jwt e token usr account w =
     (case (account, usr) of
        (Some acc, Some u) \<Rightarrow>
          if provider acc = ''google'' then initial_sign_in e token acc w
          else subsequent_call e token w
      | _ \<Rightarrow> subsequent_call e token w)"

section \<open>Route guard: the middleware and its \<^verbatim>\<open>authorized\<close> callback\<close>

text \<open>
  The middleware module declares its own, smaller \<^verbatim>\<open>CustomJWT\<close>: a token whose
  \<^verbatim>\<open>user\<close> and whose user's \<^verbatim>\<open>role\<close> may both be missing. The request's token is
  \<^verbatim>\<open>CustomJWT | null\<close>.
\<close>

record MwUser =
  mw_role :: "Role option"

record MwJWT =
  mw_user :: "MwUser option"

text \<open>
  What the guard answers: \<^verbatim>\<open>NextResponse.next()\<close> lets the request through,
  \<^verbatim>\<open>NextResponse.redirect(url)\<close> sends the browser elsewhere. The specification's names
  for the three outcomes are given as abbreviations.
\<close>

datatype NextResponse = Next | Redirect string

abbreviation Allow :: NextResponse where
  "Allow \<equiv> Next"

abbreviation RedirectToUnauthorized :: NextResponse where
  "RedirectToUnauthorized \<equiv> Redirect ''/unauthorized?reason=role''"

abbreviation RedirectToLogin :: NextResponse where
  "RedirectToLogin \<equiv> Redirect ''/login''"

subsection \<open>String tests\<close>

text \<open>\<open>startsWith s p\<close> is \<^verbatim>\<open>s.startsWith(p)\<close>; \<open>str_includes s p\<close> is \<^verbatim>\<open>s.includes(p)\<close>.\<close>

fun startsWith :: "string \<Rightarrow> string \<Rightarrow> bool" where
  "startsWith s [] = True"
| "startsWith [] (c # p) = False"
| "startsWith (x # s) (c # p) = (x = c \<and> startsWith s p)"

fun str_includes :: "string \<Rightarrow> string \<Rightarrow> bool" where
  "str_includes [] p = startsWith [] p"
| "str_includes (x # s) p = (startsWith (x # s) p \<or> str_includes s p)"

text \<open>The class \<^verbatim>\<open>\d\<close> of a regular expression without the unicode flag: \<^verbatim>\<open>[0-9]\<close>.\<close>

definition isDigit :: "char \<Rightarrow> bool" where
  "isDigit c = (c \<in> set ''0123456789'')"

text \<open>
  The two regular expressions of the module are sequences of literal characters, of
  \<^verbatim>\<open>\d+\<close> and of a final \<^verbatim>\<open>$\<close>, anchored at the start by \<^verbatim>\<open>^\<close>. \<open>rx_match\<close> decides
  whether such a sequence matches at the start of a string, trying every length of a
  run of digits as a backtracking matcher does.
\<close>

datatype rx_item = Lit char | Digits | End

fun rx_match :: "rx_item list \<Rightarrow> string \<Rightarrow> bool" where
  "rx_match [] s = True"
| "rx_match (End # ts) s = (s = [] \<and> rx_match ts [])"
| "rx_match (Lit c # ts) [] = False"
| "rx_match (Lit c # ts) (x # s) = (x = c \<and> rx_match ts s)"
| "rx_match (Digits # ts) [] = False"
| "rx_match (Digits # ts) (x # s) = (isDigit x \<and> (rx_match ts s \<or> rx_match (Digits # ts) s))"

text \<open>The literal \<^verbatim>\<open>/^\/quizzes\/\d+\/edit$/\<close> of the middleware function.\<close>

definition edit_regex :: "rx_item list" where
  "edit_regex = map Lit ''/quizzes/'' @ [Digits] @ map Lit ''/edit'' @ [End]"

text \<open>
  \<^verbatim>\<open>new RegExp(`^${path.replace(/\[id\]/g, "\\d+")}`)\<close>: every occurrence of \<^verbatim>\<open>[id]\<close>
  becomes \<^verbatim>\<open>\d+\<close>, every other character of a protected path stands for itself (the
  protected paths hold letters and slashes only).
\<close>

fun replace_id :: "string \<Rightarrow> rx_item list" where
  "replace_id [] = []"
| "replace_id (c # s) =
     (if startsWith (c # s) ''[id]'' then Digits # replace_id (drop 3 s)
      else Lit c # replace_id s)"

subsection \<open>The middleware function\<close>

definition userRole_of :: "MwJWT option \<Rightarrow> Role option" where
  "userRole_of token =
     (case token of
        None \<Rightarrow> None
      | Some t \<Rightarrow> (case mw_user t of None \<Rightarrow> None | Some u \<Rightarrow> mw_role u))"

definition role_restricted :: "string \<Rightarrow> bool" where
  "role_restricted pathname =
     (startsWith pathname ''/quizzes/new'' \<or> rx_match edit_regex pathname)"

definition middleware :: "MwJWT option \<Rightarrow> string \<Rightarrow> NextResponse" where
  "middleware token pathname =
     (let userRole = userRole_of token in
      if role_restricted pathname
      then (if userRole \<noteq> Some TEACHER \<and> userRole \<noteq> Some ADMIN
            then Redirect ''/unauthorized?reason=role''
            else Next)
      else Next)"

subsection \<open>The \<^verbatim>\<open>authorized\<close> callback\<close>

definition protectedPaths :: "string list" where
  "protectedPaths = [''/attempts'', ''/quizzes/new'', ''/quizzes/[id]/edit'']"

definition requiresAuth :: "string \<Rightarrow> bool" where
  "requiresAuth pathname =
     list_ex (\<lambda>path. if str_includes path ''[id]''
                      then rx_match (replace_id path) pathname
                      else startsWith pathname path) protectedPaths"

definition authorized :: "MwJWT option \<Rightarrow> string \<Rightarrow> bool" where
  "authorized token pathname = (if requiresAuth pathname then token \<noteq> None else True)"

subsection \<open>\<^verbatim>\<open>withAuth\<close>\<close>

text \<open>
  \<^verbatim>\<open>withAuth(middleware, {callbacks: {authorized}, pages: {signIn: "/login"}})\<close> is
  next-auth's wrapper. Its contract, as the module's comments use it (``Return true to
  allow access, false to redirect to login page'', ``already handled by withAuth
  default''): the callback is asked first; when it answers false the request is
  redirected to the sign-in page, and only otherwise the wrapped function runs, on the
  same token. The callback URL that next-auth appends to the sign-in address is left out.
\<close>

definition signIn :: string where
  "signIn = ''/login''"

definition withAuth ::
  "(MwJWT option \<Rightarrow> string \<Rightarrow> NextResponse) \<Rightarrow> (MwJWT option \<Rightarrow> string \<Rightarrow> bool)
     \<Rightarrow> MwJWT option \<Rightarrow> string \<Rightarrow> NextResponse" where
  "withAuth mw cb token pathname =
     (if cb token pathname then mw token pathname else Redirect signIn)"

definition gate :: "MwJWT option \<Rightarrow> string \<Rightarrow> NextResponse" where
  "gate = withAuth middleware authorized"

section \<open>The quiz attempt form: building the submission\<close>

subsection \<open>Numbers as property keys, and back\<close>

text \<open>
  \<^verbatim>\<open>AnswersState\<close> is an object indexed by question id. An object's keys are strings:
  storing under a number stores under the string the number prints as, and
  \<^verbatim>\<open>Object.entries\<close> hands those strings out, which \<^verbatim>\<open>handleSubmit\<close> reads back with
  \<^verbatim>\<open>parseInt(qId, 10)\<close>. Identifiers are modelled as integers.

  \<open>Number_toString\<close> is how a number prints: a minus sign for a negative number, and
  for the magnitude the decimal digits below \<open>10^21\<close>, exponent notation from there on.
  Below \<open>2^53\<close> every integer is a number of the language and the digits are exact. From
  \<open>10^21\<close> on the language prints the shortest digits that identify the floating-point
  number; \<open>exponent_form\<close> prints all digits of the integer, which is the same string
  when the integer has at most 15 significant digits, as \<open>10^21\<close> has.
\<close>

definition digit_char :: "nat \<Rightarrow> char" where
  "digit_char d = ''0123456789'' ! d"

definition digit_val :: "char \<Rightarrow> nat" where
  "digit_val c = length (takeWhile (\<lambda>x. x \<noteq> c) ''0123456789'')"

fun decimal :: "nat \<Rightarrow> string" where
  "decimal n = (if n < 10 then [digit_char n] else decimal (n div 10) @ [digit_char (n mod 10)])"

declare decimal.simps [simp del]

definition strip_zeros :: "string \<Rightarrow> string" where
  "strip_zeros ds = rev (dropWhile (\<lambda>c. c = CHR ''0'') (rev ds))"

definition exponent_form :: "nat \<Rightarrow> string" where
  "exponent_form n =
     (case decimal n of
        [] \<Rightarrow> []
      | d # rest \<Rightarrow>
          d # (if strip_zeros rest = [] then [] else CHR ''.'' # strip_zeros rest)
            @ ''e+'' @ decimal (length rest))"

definition magnitude_toString :: "nat \<Rightarrow> string" where
  "magnitude_toString n = (if n < 10 ^ 21 then decimal n else exponent_form n)"

definition Number_toString :: "int \<Rightarrow> string" where
  "Number_toString i =
     (if i < 0 then CHR ''-'' # magnitude_toString (nat (- i)) else magnitude_toString (nat i))"

text \<open>
  \<^verbatim>\<open>parseInt(s, 10)\<close> on a key: an optional minus sign, then the longest run of digits;
  whatever follows is ignored, and without a digit the result is \<^verbatim>\<open>NaN\<close>, here \<open>None\<close>.
  (Leading blanks and a plus sign, which \<^verbatim>\<open>parseInt\<close> also accepts, do not occur in a
  printed number.)
\<close>

definition digits_value :: "string \<Rightarrow> nat" where
  "digits_value ds = foldl (\<lambda>acc c. 10 * acc + digit_val c) 0 ds"

definition parse_digits :: "string \<Rightarrow> nat option" where
  "parse_digits s =
     (let ds = takeWhile isDigit s in if ds = [] then None else Some (digits_value ds))"

definition parseInt10 :: "string \<Rightarrow> int option" where
  "parseInt10 s =
     (case s of
        [] \<Rightarrow> None
      | c # r \<Rightarrow>
          if c = CHR ''-'' then map_option (\<lambda>n. - int n) (parse_digits r)
          else map_option int (parse_digits s))"

text \<open>\<^verbatim>\<open>Number.isSafeInteger\<close>: the integers of absolute value below \<open>2^53\<close>.\<close>

definition safe_integer :: "int \<Rightarrow> bool" where
  "safe_integer i = (\<bar>i\<bar> < 2 ^ 53)"

subsection \<open>The data\<close>

record AnswerOption =
  option_id :: int
  option_text :: string
  is_correct :: bool

datatype QuestionType = SINGLE_MCQ | MULTI_MCQ | TRUE_FALSE

record QuestionReadOnly =
  q_id :: int
  question_type :: QuestionType
  q_text :: string
  points :: nat
  answer_options :: "AnswerOption list"

record QuizReadOnly =
  quiz_rid :: int
  title :: string
  teacher :: BackendUser
  timing_minutes :: nat
  available_from :: "string option"
  available_to :: "string option"
  is_available_for_submission :: bool
  has_availability_window :: bool
  questions :: "QuestionReadOnly list"

record answer_state =
  selectedOptionIds :: "int list option"
  selectedAnswerBool :: "bool option"

text \<open>
  The answers: a finite map from the numbers used as keys. Two different numbers print
  differently, so looking a number up (\<^verbatim>\<open>answers[q.id]\<close>) is the lookup of the map.
\<close>

type_synonym AnswersState = "(int, answer_state) fmap"

text \<open>A submitted \<^verbatim>\<open>question_id\<close> is what \<^verbatim>\<open>parseInt\<close> returned: a number or \<^verbatim>\<open>NaN\<close>.\<close>

record ParticipantAnswerSubmit =
  question_id :: "int option"
  selected_option_ids :: "int list option"
  selected_answer_bool :: "bool option"

record QuizSubmission =
  quiz_id :: int
  answers :: "ParticipantAnswerSubmit list"

subsection \<open>\<^verbatim>\<open>handleSubmit\<close>\<close>

text \<open>
  \<^verbatim>\<open>Object.entries(answers)\<close>: the keys as strings, each with its value. Keys that are
  integers from \<open>0\<close> to \<open>2^32 - 2\<close> come in ascending order, as in \<open>sorted_list_of_fmap\<close>;
  other keys follow in the order in which they were stored, which the map does not
  record. Nothing stated below depends on the order of the entries made from the answers.
\<close>

definition Object_entries :: "AnswersState \<Rightarrow> (string \<times> answer_state) list" where
  "Object_entries ans = map (\<lambda>(k, a). (Number_toString k, a)) (sorted_list_of_fmap ans)"

text \<open>The function mapped over the entries.\<close>

definition answered_entry :: "string \<times> answer_state \<Rightarrow> ParticipantAnswerSubmit" where
  "answered_entry = (\<lambda>(qId, ans).
     \<lparr>question_id = parseInt10 qId,
      selected_option_ids =
        (case selectedOptionIds ans of
           None \<Rightarrow> None
         | Some ids \<Rightarrow> if length ids > 0 then Some ids else None),
      selected_answer_bool = selectedAnswerBool ans\<rparr>)"

definition unanswered_entry :: "int \<Rightarrow> ParticipantAnswerSubmit" where
  "unanswered_entry qId =
     \<lparr>question_id = Some qId, selected_option_ids = None, selected_answer_bool = None\<rparr>"

text \<open>
  \<^verbatim>\<open>quiz.questions.forEach\<close>: one push for every question whose id is not a key of
  the answers (a stored answer is an object, hence truthy).
\<close>

fun push_unanswered ::
  "AnswersState \<Rightarrow> QuestionReadOnly list \<Rightarrow> ParticipantAnswerSubmit list
     \<Rightarrow> ParticipantAnswerSubmit list" where
  "push_unanswered ans [] submissionAnswers = submissionAnswers"
| "push_unanswered ans (q # qs) submissionAnswers =
     push_unanswered ans qs
       (if fmlookup ans (q_id q) = None
        then submissionAnswers @ [unanswered_entry (q_id q)]
        else submissionAnswers)"

definition build_payload :: "QuizReadOnly \<Rightarrow> AnswersState \<Rightarrow> QuizSubmission" where
  "build_payload quiz ans =
     \<lparr>quiz_id = quiz_rid quiz,
      answers = push_unanswered ans (questions quiz)
                  (map answered_entry (Object_entries ans))\<rparr>"

text \<open>
  \<^verbatim>\<open>handleSubmit\<close> up to the point where the payload is handed to \<^verbatim>\<open>fetchApi\<close>: without
  a session access token it stops with the message it shows, and builds nothing.
\<close>

definition handleSubmit :: "string option \<Rightarrow> QuizReadOnly \<Rightarrow> AnswersState \<Rightarrow> string + QuizSubmission" where
  "handleSubmit session_accessToken quiz ans =
     (if \<not> truthy_string session_accessToken
      then Inl ''Authentication error. Please log in again.''
      else Inr (build_payload quiz ans))"

section \<open>Concrete inputs\<close>

text \<open>A backend that accepts every refresh, one that rejects every call, and a clock.\<close>

definition accepting_backend :: env where
  "accepting_backend =
     \<lparr>Date_now = (\<lambda>k. 1000 + k),
      post_token_refresh = (\<lambda>r. Some \<lparr>access = ''fresh'', refresh = None\<rparr>),
      post_google_callback = (\<lambda>a i. None)\<rparr>"

definition rejecting_backend :: env where
  "rejecting_backend =
     \<lparr>Date_now = (\<lambda>k. 1000 + k),
      post_token_refresh = (\<lambda>r. None),
      post_google_callback = (\<lambda>a i. None)\<rparr>"

definition alice :: BackendUser where
  "alice = \<lparr>user_id = 7, username = ''alice'', email = ''alice@example.org'',
            role = STUDENT, is_marked = False\<rparr>"

definition no_claims :: JWT where
  "no_claims = \<lparr>jwt_name = None, jwt_email = None, jwt_picture = None, jwt_sub = None\<rparr>"

text \<open>A signed-in session with refresh token \<open>r\<close> and expiry \<open>x\<close>.\<close>

definition session_token :: "string option \<Rightarrow> int \<Rightarrow> CustomJWT" where
  "session_token r x =
     \<lparr>jwt_claims = no_claims, accessToken = Some ''old'', refreshToken = r,
      accessTokenExpires = Some x, user = Some alice, error = None\<rparr>"

definition world0 :: world where
  "world0 = \<lparr>clock_reads = 0, sent = []\<rparr>"

definition student_token :: MwJWT where
  "student_token = \<lparr>mw_user = Some \<lparr>mw_role = Some STUDENT\<rparr>\<rparr>"

definition teacher_token :: MwJWT where
  "teacher_token = \<lparr>mw_user = Some \<lparr>mw_role = Some TEACHER\<rparr>\<rparr>"

definition question1 :: QuestionReadOnly where
  "question1 = \<lparr>q_id = 1, question_type = TRUE_FALSE, q_text = ''Is 2 prime?'', points = 1,
                answer_options = []\<rparr>"

definition question2 :: QuestionReadOnly where
  "question2 = \<lparr>q_id = 2, question_type = MULTI_MCQ, q_text = ''Pick the even numbers'',
                points = 2, answer_options = []\<rparr>"

definition bob :: BackendUser where
  "bob = \<lparr>user_id = 3, username = ''bob'', email = ''bob@example.org'', role = TEACHER,
          is_marked = False\<rparr>"

definition quiz_of :: "QuestionReadOnly list \<Rightarrow> QuizReadOnly" where
  "quiz_of qs = \<lparr>quiz_rid = 5, title = ''Numbers'', teacher = bob, timing_minutes = 10,
                 available_from = None, available_to = None, is_available_for_submission = True,
                 has_availability_window = False, questions = qs\<rparr>"

definition one_answer :: AnswersState where
  "one_answer = fmupd 1 \<lparr>selectedOptionIds = Some [], selectedAnswerBool = Some True\<rparr> fmempty"

text \<open>A question whose id is \<open>10^21\<close>, and an answer to it.\<close>

definition big_question :: QuestionReadOnly where
  "big_question = \<lparr>q_id = 1000000000000000000000, question_type = TRUE_FALSE,
                   q_text = ''Is 3 prime?'', points = 1, answer_options = []\<rparr>"

definition big_answer :: AnswersState where
  "big_answer = fmupd 1000000000000000000000
                  \<lparr>selectedOptionIds = Some [], selectedAnswerBool = Some True\<rparr> fmempty"

text \<open>A Google account as next-auth passes it on sign-in, and a token without a profile.\<close>

definition google_account :: Account where
  "google_account = \<lparr>provider = ''google'', google_access_token = Some ''ya29'',
                     google_id_token = Some ''eyJ''\<rparr>"

definition profileless_token :: MwJWT where
  "profileless_token = \<lparr>mw_user = None\<rparr>"

section \<open>Properties of the token lifecycle\<close>

subsection \<open>The three exits of \<^verbatim>\<open>refreshAccessToken\<close>\<close>


lemma refreshAccessToken_rejected:
  assumes "refreshToken token = Some r" and "r \<noteq> []" and "post_token_refresh e r = None"
  shows "refreshAccessToken e token w =
           (token\<lparr>error := Some ''RefreshAccessTokenError'', accessToken := None,
                  refreshToken := None, accessTokenExpires := Some 0\<rparr>,
            w\<lparr>sent := sent w @ [TokenRefresh r]\<rparr>)"
  using assms by (simp add: refreshAccessToken_def axios_post_refresh_def)

lemma refreshAccessToken_accepted:
  assumes "refreshToken token = Some r" and "r \<noteq> []" and "post_token_refresh e r = Some resp"
  shows "refreshAccessToken e token w =
           (token\<lparr>accessToken := Some (access resp),
                  refreshToken := (case refresh resp of None \<Rightarrow> Some r | Some r' \<Rightarrow> Some r'),
                  accessTokenExpires := Some (int (Date_now e (clock_reads w)) + lifetime),
                  error := None\<rparr>,
            w\<lparr>sent := sent w @ [TokenRefresh r], clock_reads := Suc (clock_reads w)\<rparr>)"
  using assms
  by (simp add: refreshAccessToken_def axios_post_refresh_def read_clock_def split: option.splits)

text \<open>
  The operator is called at one place, line 184, inside
  \<^verbatim>\<open>if (customToken.refreshToken)\<close>: \<open>refresh_or_give_up\<close> is that call together with
  its test and with the branch taken when the test fails. The early return inside the
  operator (lines 41 to 44, \<open>refreshAccessToken_missing\<close>) is therefore never entered
  by the program.
\<close>

lemma refreshAccessToken_error_revokes:
  assumes "truthy_string (refreshToken token)"
    and "error (fst (refreshAccessToken e token w)) \<noteq> None"
  shows "accessToken (fst (refreshAccessToken e token w)) = None"
proof -
  from assms(1) obtain r where r: "refreshToken token = Some r" "r \<noteq> []"
    by (cases "refreshToken token") auto
  show ?thesis
  proof (cases "post_token_refresh e r")
    case None
    with r show ?thesis by (simp add: refreshAccessToken_rejected)
  next
    case (Some resp)
    with r assms(2) show ?thesis by (simp add: refreshAccessToken_accepted)
  qed
qed

lemma initial_sign_in_error_revokes:
  "error (fst (initial_sign_in e token acc w)) \<noteq> None \<Longrightarrow>
   accessToken (fst (initial_sign_in e token acc w)) = None"
  by (auto simp: initial_sign_in_def axios_post_google_def read_clock_def split: option.splits)

lemma refresh_or_give_up_error_revokes:
  "error (fst (refresh_or_give_up e token w)) \<noteq> None \<Longrightarrow>
   accessToken (fst (refresh_or_give_up e token w)) = None"
  by (cases "truthy_string (refreshToken token)")
     (simp_all add: refresh_or_give_up_def refreshAccessToken_error_revokes)


text \<open>
  C1. Every record that an invocation of \<^verbatim>\<open>refreshAccessToken\<close> or the initial sign-in
  produces with an error tag has no access token: this holds of the operator on every
  record that passes the test under which it is called, of the call with its test on
  every record whatsoever, and of both exits of the sign-in.
\<close>

theorem error_tag_excludes_accessToken:
  "(truthy_string (refreshToken token) \<longrightarrow>
      error (fst (refreshAccessToken e token w)) \<noteq> None \<longrightarrow>
      accessToken (fst (refreshAccessToken e token w)) = None)
   \<and> (error (fst (refresh_or_give_up e token w)) \<noteq> None \<longrightarrow>
        accessToken (fst (refresh_or_give_up e token w)) = None)
   \<and> (error (fst (initial_sign_in e token acc w)) \<noteq> None \<longrightarrow>
        accessToken (fst (initial_sign_in e token acc w)) = None)"
  using refreshAccessToken_error_revokes [of token e w]
    refresh_or_give_up_error_revokes [of e token w]
    initial_sign_in_error_revokes [of e token acc w]
  by blast

theorem error_tag_excludes_accessToken_witness:
  "truthy_string (refreshToken (session_token (Some ''r1'') 500))
   \<and> error (fst (refreshAccessToken rejecting_backend (session_token (Some ''r1'') 500) world0))
       = Some ''RefreshAccessTokenError''
   \<and> accessToken (fst (refreshAccessToken rejecting_backend (session_token (Some ''r1'') 500) world0))
       = None
   \<and> error (fst (initial_sign_in rejecting_backend (session_token (Some ''r1'') 500)
                   google_account world0))
       = Some ''BackendLoginFailed''
   \<and> accessToken (fst (initial_sign_in rejecting_backend (session_token (Some ''r1'') 500)
                         google_account world0))
       = None"
proof -
  have t: "truthy_string (refreshToken (session_token (Some ''r1'') 500))"
    by (simp add: session_token_def)
  have e1: "error (fst (refreshAccessToken rejecting_backend (session_token (Some ''r1'') 500) world0))
              = Some ''RefreshAccessTokenError''"
    by (simp add: refreshAccessToken_def axios_post_refresh_def session_token_def
        rejecting_backend_def)
  have e2: "error (fst (initial_sign_in rejecting_backend (session_token (Some ''r1'') 500)
                         google_account world0))
              = Some ''BackendLoginFailed''"
    by (simp add: initial_sign_in_def axios_post_google_def rejecting_backend_def)
  show ?thesis
    using t e1 e2
      error_tag_excludes_accessToken
        [of "session_token (Some ''r1'') 500" rejecting_backend world0 google_account]
    by simp
qed



text \<open>
  C3. Claimed: when the \<^verbatim>\<open>jwt\<close> callback delegates to \<^verbatim>\<open>refreshAccessToken\<close> and the
  refresh fails, the returned record has \<^verbatim>\<open>user\<close> cleared and carries the operator's
  error tag. The tag is carried, one request is sent, but the callback returns the
  operator's record as it is, and the operator does not touch \<^verbatim>\<open>user\<close>: the profile
  survives.
\<close>

theorem jwt_failed_refresh_keeps_user:
  "error (fst (jwt rejecting_backend (session_token (Some ''r1'') 500) None None world0))
     = Some ''RefreshAccessTokenError''
   \<and> user (fst (jwt rejecting_backend (session_token (Some ''r1'') 500) None None world0))
       = Some alice
   \<and> sent (snd (jwt rejecting_backend (session_token (Some ''r1'') 500) None None world0))
       = [TokenRefresh ''r1'']"
  by (simp add: jwt_def subsequent_call_def refresh_or_give_up_def refreshAccessToken_def
      axios_post_refresh_def read_clock_def session_token_def rejecting_backend_def world0_def)

text \<open>
  C4. With a refresh token to send and a refresh exchange that fails, the record
  returned by \<^verbatim>\<open>refreshAccessToken\<close> is tagged \<^verbatim>\<open>RefreshAccessTokenError\<close>, its access
  token and refresh token are absent, its expiry is cleared (reset to \<^verbatim>\<open>0\<close>, which the
  validity test of the \<^verbatim>\<open>jwt\<close> callback treats like an absent one), and \<^verbatim>\<open>user\<close> and
  the inherited claims are exactly those of the input. Exactly one request was sent.
\<close>

theorem refreshAccessToken_failure_clears_credentials:
  assumes "refreshToken token = Some r" and "r \<noteq> []" and "post_token_refresh e r = None"
  shows "error (fst (refreshAccessToken e token w)) = Some ''RefreshAccessTokenError''
       \<and> accessToken (fst (refreshAccessToken e token w)) = None
       \<and> refreshToken (fst (refreshAccessToken e token w)) = None
       \<and> accessTokenExpires (fst (refreshAccessToken e token w)) = Some 0
       \<and> \<not> truthy_number (accessTokenExpires (fst (refreshAccessToken e token w)))
       \<and> user (fst (refreshAccessToken e token w)) = user token
       \<and> jwt_claims (fst (refreshAccessToken e token w)) = jwt_claims token
       \<and> sent (snd (refreshAccessToken e token w)) = sent w @ [TokenRefresh r]"
  by (simp add: refreshAccessToken_rejected [OF assms])

theorem refreshAccessToken_failure_clears_credentials_witness:
  "error (fst (refreshAccessToken rejecting_backend (session_token (Some ''r1'') 500) world0))
     = Some ''RefreshAccessTokenError''
   \<and> accessToken (fst (refreshAccessToken rejecting_backend (session_token (Some ''r1'') 500) world0))
       = None
   \<and> user (fst (refreshAccessToken rejecting_backend (session_token (Some ''r1'') 500) world0))
       = Some alice"
  using refreshAccessToken_failure_clears_credentials
          [of "session_token (Some ''r1'') 500" "''r1''" rejecting_backend world0]
  by (simp add: session_token_def rejecting_backend_def)

text \<open>
  C8, as claimed, asks the new expiry to be strictly later than the input's for every
  input record. \<^verbatim>\<open>refreshAccessToken\<close> never looks at the old expiry: on a record whose
  expiry lies further ahead than the lifetime, the accepted refresh moves the expiry back.
\<close>

theorem refreshAccessToken_expiry_not_later:
  "error (fst (refreshAccessToken accepting_backend (session_token (Some ''r1'') 1000000000) world0))
     = None
   \<and> accessTokenExpires (session_token (Some ''r1'') 1000000000) = Some 1000000000
   \<and> accessTokenExpires
       (fst (refreshAccessToken accepting_backend (session_token (Some ''r1'') 1000000000) world0))
       = Some 301000"
  by (simp add: refreshAccessToken_def axios_post_refresh_def read_clock_def session_token_def
      accepting_backend_def world0_def lifetime_def)

text \<open>
  C8, amended. With a refresh token to send and an accepted refresh, the record returned
  has no error tag, the access token of the response, the refresh token of the response
  when there is one and the old one otherwise, and the expiry ``clock reading plus
  lifetime''; that expiry is strictly later than the input's whenever the input's expiry
  is earlier than the reading plus the lifetime, in particular whenever the input had
  expired. One request was sent and the clock was read once.
\<close>

theorem refreshAccessToken_success:
  assumes "refreshToken token = Some r" and "r \<noteq> []" and "post_token_refresh e r = Some resp"
  shows "error (fst (refreshAccessToken e token w)) = None
       \<and> accessToken (fst (refreshAccessToken e token w)) = Some (access resp)
       \<and> refreshToken (fst (refreshAccessToken e token w)) =
           (case refresh resp of None \<Rightarrow> Some r | Some r' \<Rightarrow> Some r')
       \<and> accessTokenExpires (fst (refreshAccessToken e token w)) =
           Some (int (Date_now e (clock_reads w)) + lifetime)
       \<and> (accessTokenExpires token = Some x \<and> x < int (Date_now e (clock_reads w)) + lifetime
            \<longrightarrow> (\<exists>x'. accessTokenExpires (fst (refreshAccessToken e token w)) = Some x' \<and> x < x'))
       \<and> user (fst (refreshAccessToken e token w)) = user token
       \<and> sent (snd (refreshAccessToken e token w)) = sent w @ [TokenRefresh r]
       \<and> clock_reads (snd (refreshAccessToken e token w)) = Suc (clock_reads w)"
  by (simp add: refreshAccessToken_accepted [OF assms])

theorem refreshAccessToken_success_witness:
  "error (fst (refreshAccessToken accepting_backend (session_token (Some ''r1'') 500) world0)) = None
   \<and> accessToken (fst (refreshAccessToken accepting_backend (session_token (Some ''r1'') 500) world0))
       = Some ''fresh''
   \<and> refreshToken (fst (refreshAccessToken accepting_backend (session_token (Some ''r1'') 500) world0))
       = Some ''r1''
   \<and> accessTokenExpires
       (fst (refreshAccessToken accepting_backend (session_token (Some ''r1'') 500) world0))
       = Some 301000
   \<and> (\<exists>x'. accessTokenExpires
              (fst (refreshAccessToken accepting_backend (session_token (Some ''r1'') 500) world0))
              = Some x' \<and> 500 < x')"
  using refreshAccessToken_success
          [of "session_token (Some ''r1'') 500" "''r1''" accepting_backend
              "\<lparr>access = ''fresh'', refresh = None\<rparr>" world0 500]
  by (simp add: session_token_def accepting_backend_def world0_def lifetime_def)

text \<open>
  Through the \<^verbatim>\<open>jwt\<close> callback the refresh is reached only with an expiry that is not
  ahead of the clock; if the clock does not run backwards between its two readings, the
  accepted refresh does move the expiry forward.
\<close>

lemma jwt_refresh_moves_expiry_forward:
  assumes "account = None \<or> usr = None"
    and "accessTokenExpires token = Some x" and "x \<noteq> 0"
    and "\<not> int (Date_now e (clock_reads w)) < x"
    and "refreshToken token = Some r" and "r \<noteq> []" and "post_token_refresh e r = Some resp"
    and "Date_now e (clock_reads w) \<le> Date_now e (Suc (clock_reads w))"
  shows "\<exists>x'. accessTokenExpires (fst (jwt e token usr account w)) = Some x' \<and> x < x'"
proof -
  let ?w1 = "w\<lparr>clock_reads := Suc (clock_reads w)\<rparr>"
  have "jwt e token usr account w = refreshAccessToken e token ?w1"
    using assms(1-6)
    by (auto simp: jwt_def subsequent_call_def refresh_or_give_up_def read_clock_def
        split: option.splits)
  moreover have "accessTokenExpires (fst (refreshAccessToken e token ?w1)) =
                   Some (int (Date_now e (Suc (clock_reads w))) + lifetime)"
    by (simp add: refreshAccessToken_accepted [OF assms(5-7)])
  moreover have "x < int (Date_now e (Suc (clock_reads w))) + lifetime"
    using assms(4,8) by (simp add: lifetime_def)
  ultimately show ?thesis by simp
qed

text \<open>
  C9. A call of the \<^verbatim>\<open>jwt\<close> callback that is not an initial sign-in, on a record with
  an access token whose expiry lies strictly after the clock reading, returns the record
  itself and sends no request.
\<close>

theorem jwt_valid_token_unchanged:
  assumes "account = None \<or> usr = None"
    and "accessToken token \<noteq> None"
    and "accessTokenExpires token = Some expires"
    and "int (Date_now e (clock_reads w)) < expires"
  shows "fst (jwt e token usr account w) = token
       \<and> sent (snd (jwt e token usr account w)) = sent w"
  using assms by (auto simp: jwt_def subsequent_call_def read_clock_def split: option.splits)

theorem jwt_valid_token_unchanged_witness:
  "fst (jwt rejecting_backend (session_token (Some ''r1'') 5000) None None world0)
     = session_token (Some ''r1'') 5000
   \<and> sent (snd (jwt rejecting_backend (session_token (Some ''r1'') 5000) None None world0)) = []"
  using jwt_valid_token_unchanged
          [of None None "session_token (Some ''r1'') 5000" 5000 rejecting_backend world0]
  by (simp add: session_token_def rejecting_backend_def world0_def)

section \<open>Properties of the route guard\<close>

subsection \<open>What the matchers accept\<close>

lemma startsWith_iff: "startsWith s p = (\<exists>rest. s = p @ rest)"
  by (induction s p rule: startsWith.induct) auto

lemma rx_match_Lit_append:
  "rx_match (map Lit p @ ts) s = (\<exists>r. s = p @ r \<and> rx_match ts r)"
proof (induction p arbitrary: s)
  case Nil
  show ?case by simp
next
  case (Cons c p)
  show ?case
  proof (cases s)
    case Nil
    then show ?thesis by simp
  next
    case (Cons x xs)
    then show ?thesis using Cons.IH [of xs] by auto
  qed
qed

lemma rx_match_Lits: "rx_match (map Lit p) s = (\<exists>rest. s = p @ rest)"
  using rx_match_Lit_append [of p "[]" s] by simp

text \<open>\<^verbatim>\<open>\d+\<close> takes a non-empty run of digits, of any length that lets the rest match.\<close>

lemma rx_match_Digits:
  "rx_match (Digits # ts) s =
     (\<exists>ds r. ds \<noteq> [] \<and> list_all isDigit ds \<and> s = ds @ r \<and> rx_match ts r)"
proof (induction s)
  case Nil
  show ?case by simp
next
  case (Cons x s)
  show ?case
  proof
    assume m: "rx_match (Digits # ts) (x # s)"
    then have d: "isDigit x" and alt: "rx_match ts s \<or> rx_match (Digits # ts) s"
      by simp_all
    from alt show "\<exists>ds r. ds \<noteq> [] \<and> list_all isDigit ds \<and> x # s = ds @ r \<and> rx_match ts r"
    proof
      assume "rx_match ts s"
      with d have "[x] \<noteq> [] \<and> list_all isDigit [x] \<and> x # s = [x] @ s \<and> rx_match ts s"
        by simp
      then show ?thesis by blast
    next
      assume "rx_match (Digits # ts) s"
      with Cons.IH obtain ds r where
        "ds \<noteq> []" "list_all isDigit ds" "s = ds @ r" "rx_match ts r"
        by blast
      with d have
        "x # ds \<noteq> [] \<and> list_all isDigit (x # ds) \<and> x # s = (x # ds) @ r \<and> rx_match ts r"
        by simp
      then show ?thesis by blast
    qed
  next
    assume "\<exists>ds r. ds \<noteq> [] \<and> list_all isDigit ds \<and> x # s = ds @ r \<and> rx_match ts r"
    then obtain ds r where ne: "ds \<noteq> []" and dg: "list_all isDigit ds"
      and eq: "x # s = ds @ r" and m: "rx_match ts r"
      by blast
    from ne obtain d ds' where ds: "ds = d # ds'" by (cases ds) auto
    with eq have x: "x = d" and s: "s = ds' @ r" by simp_all
    from dg ds x have dx: "isDigit x" and dg': "list_all isDigit ds'" by simp_all
    show "rx_match (Digits # ts) (x # s)"
    proof (cases "ds' = []")
      case True
      with s m dx show ?thesis by simp
    next
      case False
      with dg' s m have "rx_match (Digits # ts) s"
        using Cons.IH by blast
      with dx show ?thesis by simp
    qed
  qed
qed

lemma rx_match_End: "rx_match [End] s = (s = [])"
  by simp

lemma replace_id_edit:
  "replace_id ''/quizzes/[id]/edit'' = map Lit ''/quizzes/'' @ [Digits] @ map Lit ''/edit''"
  by simp

lemma edit_regex_iff:
  "rx_match edit_regex pathname =
     (\<exists>ds. ds \<noteq> [] \<and> list_all isDigit ds \<and> pathname = ''/quizzes/'' @ ds @ ''/edit'')"
proof -
  have "rx_match edit_regex pathname =
          (\<exists>r. pathname = ''/quizzes/'' @ r \<and> rx_match (Digits # map Lit ''/edit'' @ [End]) r)"
    unfolding edit_regex_def by (simp only: rx_match_Lit_append append_Cons append_Nil)
  also have "\<dots> = (\<exists>r. pathname = ''/quizzes/'' @ r \<and>
       (\<exists>ds r'. ds \<noteq> [] \<and> list_all isDigit ds \<and> r = ds @ r'
                \<and> rx_match (map Lit ''/edit'' @ [End]) r'))"
    by (simp only: rx_match_Digits)
  also have "\<dots> = (\<exists>r. pathname = ''/quizzes/'' @ r \<and>
       (\<exists>ds r'. ds \<noteq> [] \<and> list_all isDigit ds \<and> r = ds @ r' \<and> r' = ''/edit''))"
    by (simp only: rx_match_Lit_append rx_match_End) auto
  also have "\<dots> =
       (\<exists>ds. ds \<noteq> [] \<and> list_all isDigit ds \<and> pathname = ''/quizzes/'' @ ds @ ''/edit'')"
    by auto
  finally show ?thesis .
qed

lemma edit_prefix_regex_iff:
  "rx_match (replace_id ''/quizzes/[id]/edit'') pathname =
     (\<exists>ds rest. ds \<noteq> [] \<and> list_all isDigit ds
                \<and> pathname = ''/quizzes/'' @ ds @ ''/edit'' @ rest)"
proof -
  have "rx_match (replace_id ''/quizzes/[id]/edit'') pathname =
          (\<exists>r. pathname = ''/quizzes/'' @ r \<and> rx_match (Digits # map Lit ''/edit'') r)"
    by (simp only: replace_id_edit rx_match_Lit_append append_Cons append_Nil)
  also have "\<dots> = (\<exists>r. pathname = ''/quizzes/'' @ r \<and>
       (\<exists>ds r'. ds \<noteq> [] \<and> list_all isDigit ds \<and> r = ds @ r'
                \<and> (\<exists>rest. r' = ''/edit'' @ rest)))"
    by (simp only: rx_match_Digits rx_match_Lits)
  also have "\<dots> =
       (\<exists>ds rest. ds \<noteq> [] \<and> list_all isDigit ds
                  \<and> pathname = ''/quizzes/'' @ ds @ ''/edit'' @ rest)"
    by auto
  finally show ?thesis .
qed

lemma digits_hold_no_slash: "list_all isDigit ds \<Longrightarrow> CHR ''/'' \<notin> set ds"
  by (auto simp: list_all_iff isDigit_def)

lemma requiresAuth_iff:
  "requiresAuth pathname =
     (startsWith pathname ''/attempts'' \<or> startsWith pathname ''/quizzes/new''
      \<or> rx_match (replace_id ''/quizzes/[id]/edit'') pathname)"
  unfolding requiresAuth_def protectedPaths_def by (simp del: replace_id.simps)

lemma role_restricted_requiresAuth: "role_restricted pathname \<Longrightarrow> requiresAuth pathname"
  unfolding role_restricted_def requiresAuth_iff edit_regex_iff edit_prefix_regex_iff
  by auto

subsection \<open>The decision\<close>

lemma userRole_of_None [simp]: "userRole_of None = None"
  by (simp add: userRole_of_def)

lemma gate_unfold:
  "gate token pathname =
     (if requiresAuth pathname \<and> token = None then RedirectToLogin
      else if role_restricted pathname \<and> userRole_of token \<noteq> Some TEACHER
              \<and> userRole_of token \<noteq> Some ADMIN
      then RedirectToUnauthorized else Allow)"
  by (auto simp: gate_def withAuth_def authorized_def middleware_def signIn_def Let_def)

text \<open>
  C5, as claimed, sends every request without TEACHER or ADMIN role on a role-restricted
  path to the unauthorized page, the request without any role included, because the role
  rule would come first. The \<^verbatim>\<open>authorized\<close> callback comes first: a request without a
  token has no role, and on \<^verbatim>\<open>/quizzes/new\<close> it is sent to the login page.
\<close>

theorem gate_no_token_role_path_goes_to_login:
  "role_restricted ''/quizzes/new'' \<and> userRole_of None = None
   \<and> gate None ''/quizzes/new'' = RedirectToLogin
   \<and> gate None ''/quizzes/new'' \<noteq> RedirectToUnauthorized"
  by (simp add: gate_unfold role_restricted_def requiresAuth_iff del: replace_id.simps)

text \<open>
  C5, amended. On every path that matches a role-restricted pattern (prefix
  \<^verbatim>\<open>/quizzes/new\<close>, or \<^verbatim>\<open>/quizzes/\<close>digits\<^verbatim>\<open>/edit\<close>): a request that carries a token
  whose role is neither TEACHER nor ADMIN, the token without a role included, is
  redirected to the unauthorized page; a request whose role is TEACHER is allowed; a
  request without a token is redirected to the login page, since the \<^verbatim>\<open>authorized\<close>
  callback is asked before the role rule. The middleware function on its own applies
  the role rule to whatever token it is given.
\<close>

theorem gate_role_restricted:
  assumes "role_restricted pathname"
  shows "(userRole_of (Some t) \<noteq> Some TEACHER \<and> userRole_of (Some t) \<noteq> Some ADMIN
            \<longrightarrow> gate (Some t) pathname = RedirectToUnauthorized)
       \<and> (userRole_of token = Some TEACHER \<longrightarrow> gate token pathname = Allow)
       \<and> gate None pathname = RedirectToLogin
       \<and> (userRole_of token \<noteq> Some TEACHER \<and> userRole_of token \<noteq> Some ADMIN
            \<longrightarrow> middleware token pathname = RedirectToUnauthorized)"
  using assms role_restricted_requiresAuth [OF assms]
  by (auto simp: gate_unfold middleware_def Let_def)

theorem gate_role_restricted_witness:
  "role_restricted ''/quizzes/12/edit''
   \<and> gate (Some student_token) ''/quizzes/12/edit'' = RedirectToUnauthorized
   \<and> gate (Some teacher_token) ''/quizzes/12/edit'' = Allow"
proof -
  have r: "role_restricted ''/quizzes/12/edit''"
    by (simp add: role_restricted_def edit_regex_def isDigit_def)
  show ?thesis
    using r gate_role_restricted [OF r, of student_token "Some teacher_token"]
    by (simp add: userRole_of_def student_token_def teacher_token_def)
qed

text \<open>
  C6, as claimed, sends a request to the login page whenever no profile or token is
  present, and allows every request with a valid role on every path that requires
  authentication, \<^verbatim>\<open>/quizzes/new\<close> among them. Both parts fail. A student on
  \<^verbatim>\<open>/quizzes/new\<close> is sent to the unauthorized page. And the \<^verbatim>\<open>authorized\<close> callback
  asks for a token, not for a profile: a token without a profile on \<^verbatim>\<open>/attempts/3\<close>
  is allowed.
\<close>

theorem gate_student_and_profileless_token:
  "requiresAuth ''/quizzes/new'' \<and> userRole_of (Some student_token) = Some STUDENT
   \<and> gate (Some student_token) ''/quizzes/new'' = RedirectToUnauthorized
   \<and> gate (Some student_token) ''/quizzes/new'' \<noteq> Allow
   \<and> requiresAuth ''/attempts/3'' \<and> mw_user profileless_token = None
   \<and> userRole_of (Some profileless_token) = None
   \<and> gate (Some profileless_token) ''/attempts/3'' = Allow
   \<and> gate (Some profileless_token) ''/attempts/3'' \<noteq> RedirectToLogin"
  by (simp add: gate_unfold role_restricted_def requiresAuth_iff userRole_of_def
      student_token_def profileless_token_def edit_regex_def del: replace_id.simps)

text \<open>
  C6, amended. On every path that matches an authenticated-required pattern, a request
  without a token is redirected to the login page, and a request with a token never is,
  whether or not the token carries a profile. With a token and a valid role the request
  is allowed, unless the path is role-restricted and the role is STUDENT, in which case
  it is redirected to the unauthorized page. With a token that has no profile or no role
  the request is allowed off the role-restricted paths and redirected to the
  unauthorized page on them.
\<close>

theorem gate_requires_auth:
  assumes "requiresAuth pathname"
  shows "gate None pathname = RedirectToLogin
       \<and> gate (Some t) pathname \<noteq> RedirectToLogin
       \<and> (userRole_of (Some t) = Some r \<longrightarrow>
            gate (Some t) pathname =
              (if role_restricted pathname \<and> r = STUDENT
               then RedirectToUnauthorized else Allow))
       \<and> (userRole_of (Some t) = None \<longrightarrow>
            gate (Some t) pathname =
              (if role_restricted pathname then RedirectToUnauthorized else Allow))
       \<and> (\<not> role_restricted pathname \<longrightarrow> gate (Some t) pathname = Allow)"
  using assms by (cases r) (auto simp: gate_unfold)

theorem gate_requires_auth_witness:
  "requiresAuth ''/attempts/3'' \<and> gate None ''/attempts/3'' = RedirectToLogin
   \<and> gate (Some student_token) ''/attempts/3'' = Allow
   \<and> gate (Some profileless_token) ''/attempts/3'' = Allow"
proof -
  have r: "requiresAuth ''/attempts/3''"
    by (simp add: requiresAuth_iff del: replace_id.simps)
  have n: "\<not> role_restricted ''/attempts/3''"
    by (simp add: role_restricted_def edit_regex_def)
  show ?thesis
    using r n gate_requires_auth [OF r, of student_token STUDENT]
      gate_requires_auth [OF r, of profileless_token STUDENT]
    by (simp add: userRole_of_def student_token_def profileless_token_def)
qed

text \<open>
  C7, as claimed, lets the variable segment of \<^verbatim>\<open>/quizzes/{id}/edit\<close> stand for any
  single segment. The segment \<^verbatim>\<open>abc\<close> is matched by neither regular expression, and
  the path is open to everybody.
\<close>

theorem edit_pattern_rejects_letters:
  "\<not> rx_match edit_regex ''/quizzes/abc/edit''
   \<and> \<not> rx_match (replace_id ''/quizzes/[id]/edit'') ''/quizzes/abc/edit''
   \<and> gate None ''/quizzes/abc/edit'' = Allow"
  by (simp add: gate_unfold role_restricted_def requiresAuth_def protectedPaths_def
      edit_regex_def isDigit_def)

text \<open>
  C7, amended. A static path is matched as a prefix. In the template
  \<^verbatim>\<open>/quizzes/{id}/edit\<close> the variable segment stands for exactly the non-empty strings
  of decimal digits, hence never for an empty segment and never for several segments (a
  digit string holds no slash, \<open>digits_hold_no_slash\<close>); the middleware function
  requires the path to end after \<^verbatim>\<open>/edit\<close>, the \<^verbatim>\<open>authorized\<close> callback accepts any
  continuation. The two pattern sets are exactly the paths so described.
\<close>

theorem gate_pattern_matching:
  "startsWith pathname p = (\<exists>rest. pathname = p @ rest)
   \<and> rx_match edit_regex pathname =
       (\<exists>ds. ds \<noteq> [] \<and> list_all isDigit ds \<and> pathname = ''/quizzes/'' @ ds @ ''/edit'')
   \<and> rx_match (replace_id ''/quizzes/[id]/edit'') pathname =
       (\<exists>ds rest. ds \<noteq> [] \<and> list_all isDigit ds
                  \<and> pathname = ''/quizzes/'' @ ds @ ''/edit'' @ rest)
   \<and> role_restricted pathname =
       ((\<exists>rest. pathname = ''/quizzes/new'' @ rest) \<or>
        (\<exists>ds. ds \<noteq> [] \<and> list_all isDigit ds \<and> pathname = ''/quizzes/'' @ ds @ ''/edit''))
   \<and> requiresAuth pathname =
       ((\<exists>rest. pathname = ''/attempts'' @ rest) \<or> (\<exists>rest. pathname = ''/quizzes/new'' @ rest) \<or>
        (\<exists>ds rest. ds \<noteq> [] \<and> list_all isDigit ds
                   \<and> pathname = ''/quizzes/'' @ ds @ ''/edit'' @ rest))"
  by (simp only: startsWith_iff edit_regex_iff edit_prefix_regex_iff role_restricted_def
      requiresAuth_iff)

theorem gate_pattern_matching_witness:
  "rx_match edit_regex ''/quizzes/12/edit''
   \<and> (\<exists>ds. ds \<noteq> [] \<and> list_all isDigit ds \<and> ''/quizzes/12/edit'' = ''/quizzes/'' @ ds @ ''/edit'')"
proof -
  have m: "rx_match edit_regex ''/quizzes/12/edit''"
    by (simp add: edit_regex_def isDigit_def)
  with gate_pattern_matching [of "''/quizzes/12/edit''" "''/quizzes/new''"]
  have "\<exists>ds. ds \<noteq> [] \<and> list_all isDigit ds \<and> ''/quizzes/12/edit'' = ''/quizzes/'' @ ds @ ''/edit''"
    by blast
  with m show ?thesis by blast
qed

section \<open>Properties of the submission\<close>

subsection \<open>A safe integer survives the way through the key\<close>

lemma digit_cases:
  "d < 10 \<Longrightarrow>
   d = 0 \<or> d = 1 \<or> d = 2 \<or> d = 3 \<or> d = 4 \<or> d = 5 \<or> d = 6 \<or> d = 7 \<or> d = 8 \<or> d = (9::nat)"
  by arith

lemma isDigit_digit_char: "d < 10 \<Longrightarrow> isDigit (digit_char d)"
  by (drule digit_cases) (auto simp: isDigit_def digit_char_def)

lemma digit_val_digit_char: "d < 10 \<Longrightarrow> digit_val (digit_char d) = d"
  by (drule digit_cases) (auto simp: digit_val_def digit_char_def)

lemma decimal_digits: "list_all isDigit (decimal n)"
proof (induction n rule: decimal.induct)
  case (1 n)
  show ?case
  proof (cases "n < 10")
    case True
    then show ?thesis by (simp add: decimal.simps [of n] isDigit_digit_char)
  next
    case False
    with 1 show ?thesis by (simp add: decimal.simps [of n] isDigit_digit_char)
  qed
qed

lemma decimal_not_Nil: "decimal n \<noteq> []"
  by (simp add: decimal.simps [of n])

lemma digits_value_snoc: "digits_value (ds @ [c]) = 10 * digits_value ds + digit_val c"
  by (simp add: digits_value_def)

lemma digits_value_decimal: "digits_value (decimal n) = n"
proof (induction n rule: decimal.induct)
  case (1 n)
  show ?case
  proof (cases "n < 10")
    case True
    then show ?thesis by (simp add: decimal.simps [of n] digits_value_def digit_val_digit_char)
  next
    case False
    with 1 have "digits_value (decimal (n div 10)) = n div 10" by simp
    with False show ?thesis
      by (simp add: decimal.simps [of n] digits_value_snoc digit_val_digit_char)
  qed
qed

lemma takeWhile_decimal: "takeWhile isDigit (decimal n) = decimal n"
  using decimal_digits [of n] by (simp add: list_all_iff takeWhile_eq_all_conv)

lemma parse_digits_decimal: "parse_digits (decimal n) = Some n"
  by (simp add: parse_digits_def Let_def takeWhile_decimal decimal_not_Nil digits_value_decimal)

lemma decimal_no_minus: "decimal n = c # r \<Longrightarrow> c \<noteq> CHR ''-''"
  using decimal_digits [of n] by (auto simp: isDigit_def)

lemma parseInt10_Number_toString:
  assumes "\<bar>i\<bar> < 10 ^ 21"
  shows "parseInt10 (Number_toString i) = Some i"
proof (cases "i < 0")
  case True
  with assms have "nat (- i) < 10 ^ 21" by (simp add: nat_less_iff)
  with True show ?thesis
    by (simp add: Number_toString_def magnitude_toString_def parseInt10_def parse_digits_decimal)
next
  case False
  with assms have m: "nat i < 10 ^ 21" by (simp add: nat_less_iff)
  obtain c r where cr: "decimal (nat i) = c # r"
    using decimal_not_Nil [of "nat i"] by (cases "decimal (nat i)") auto
  with decimal_no_minus have "c \<noteq> CHR ''-''" by blast
  with False m cr parse_digits_decimal [of "nat i"] show ?thesis
    by (simp add: Number_toString_def magnitude_toString_def parseInt10_def)
qed

lemma safe_round_trip: "safe_integer i \<Longrightarrow> parseInt10 (Number_toString i) = Some i"
  by (rule parseInt10_Number_toString) (simp add: safe_integer_def)

text \<open>From \<open>10^21\<close> on the key is in exponent notation, and only its first digit is read.\<close>

lemma Number_toString_big: "Number_toString 1000000000000000000000 = ''1e+21''"
  by (simp add: Number_toString_def magnitude_toString_def exponent_form_def decimal.simps
      strip_zeros_def digit_char_def)

lemma parseInt10_big: "parseInt10 ''1e+21'' = Some 1"
  by (simp add: parseInt10_def parse_digits_def isDigit_def digits_value_def digit_val_def)

lemma Number_toString_1: "Number_toString 1 = ''1''"
  by (simp add: Number_toString_def magnitude_toString_def decimal.simps digit_char_def)

lemma parseInt10_1: "parseInt10 ''1'' = Some 1"
  by (simp add: parseInt10_def parse_digits_def isDigit_def digits_value_def digit_val_def)

subsection \<open>The entries of the payload\<close>

text \<open>The loop appends one empty entry for each question that has no answer, in order.\<close>

lemma push_unanswered_eq:
  "push_unanswered ans qs acc =
     acc @ map (\<lambda>q. unanswered_entry (q_id q)) (filter (\<lambda>q. fmlookup ans (q_id q) = None) qs)"
  by (induction qs arbitrary: acc) simp_all

lemma filter_key_distinct:
  "distinct ks \<Longrightarrow> filter (\<lambda>k'. k' = k) ks = (if k \<in> set ks then [k] else [])"
  by (induction ks) auto

lemma distinct_sorted_list_of_fset: "distinct (sorted_list_of_fset S)"
  by (simp add: sorted_list_of_fset.rep_eq)

lemma sorted_list_of_fset_empty: "sorted_list_of_fset {||} = []"
  by (simp add: sorted_list_of_fset.rep_eq)

lemma sorted_list_of_fset_single: "sorted_list_of_fset {|k|} = [k]"
  by (simp add: sorted_list_of_fset.rep_eq)

lemma Object_entries_eq:
  "Object_entries ans =
     map (\<lambda>k. (Number_toString k, the (fmlookup ans k))) (sorted_list_of_fset (fmdom ans))"
  by (simp add: Object_entries_def sorted_list_of_fmap_def)

text \<open>
  Among the entries made from the answers, a key occurs once if it is a key at all:
  here the keys must be safe integers, or the string of one key may be read back as
  another number.
\<close>

lemma answered_part:
  assumes "\<forall>k'. k' |\<in>| fmdom ans \<longrightarrow> safe_integer k'"
  shows "filter (\<lambda>e. question_id e = Some k) (map answered_entry (Object_entries ans)) =
     (case fmlookup ans k of None \<Rightarrow> [] | Some a \<Rightarrow> [answered_entry (Number_toString k, a)])"
proof -
  let ?ks = "sorted_list_of_fset (fmdom ans)"
  let ?mk = "\<lambda>k'. answered_entry (Number_toString k', the (fmlookup ans k'))"
  have id: "\<And>k'. k' \<in> set ?ks \<Longrightarrow> (question_id (?mk k') = Some k) = (k' = k)"
    using assms by (simp add: answered_entry_def safe_round_trip)
  have "filter (\<lambda>e. question_id e = Some k) (map answered_entry (Object_entries ans)) =
          map ?mk (filter (\<lambda>k'. question_id (?mk k') = Some k) ?ks)"
    by (simp add: Object_entries_eq filter_map comp_def)
  also have "filter (\<lambda>k'. question_id (?mk k') = Some k) ?ks = filter (\<lambda>k'. k' = k) ?ks"
    by (rule filter_cong) (simp_all add: id)
  also have "filter (\<lambda>k'. k' = k) ?ks = (if k \<in> set ?ks then [k] else [])"
    by (rule filter_key_distinct) (rule distinct_sorted_list_of_fset)
  also have "map ?mk (if k \<in> set ?ks then [k] else []) =
               (case fmlookup ans k of None \<Rightarrow> [] | Some a \<Rightarrow> [answered_entry (Number_toString k, a)])"
    by (auto simp: fmdom_notI split: option.splits dest: fmdomI)
  finally show ?thesis .
qed

text \<open>Among the entries pushed by the loop: here the ids of the questions must differ.\<close>

lemma unanswered_part:
  assumes "distinct (map q_id qs)" and "q \<in> set qs"
  shows "filter (\<lambda>e. question_id e = Some (q_id q))
           (map (\<lambda>q. unanswered_entry (q_id q)) (filter (\<lambda>q. fmlookup ans (q_id q) = None) qs)) =
         (if fmlookup ans (q_id q) = None then [unanswered_entry (q_id q)] else [])"
  using assms
proof (induction qs)
  case Nil
  then show ?case by simp
next
  case (Cons x qs)
  show ?case
  proof (cases "q_id x = q_id q")
    case True
    with Cons.prems have "q_id q \<notin> q_id ` set qs" by auto
    then have notin: "\<forall>y\<in>set qs. q_id y \<noteq> q_id q" by (metis imageI)
    then have "filter (\<lambda>e. question_id e = Some (q_id q))
           (map (\<lambda>q. unanswered_entry (q_id q)) (filter (\<lambda>q. fmlookup ans (q_id q) = None) qs)) = []"
      by (auto simp: filter_empty_conv unanswered_entry_def)
    with True show ?thesis by (simp add: unanswered_entry_def)
  next
    case False
    with Cons.prems have "q \<in> set qs" and "distinct (map q_id qs)" by auto
    with Cons.IH False show ?thesis by (simp add: unanswered_entry_def)
  qed
qed

lemma entries_for_question:
  assumes "distinct (map q_id (questions quiz))" and "q \<in> set (questions quiz)"
    and "\<forall>k. k |\<in>| fmdom ans \<longrightarrow> safe_integer k"
  shows "filter (\<lambda>e. question_id e = Some (q_id q)) (answers (build_payload quiz ans)) =
           (case fmlookup ans (q_id q) of
              None \<Rightarrow> [unanswered_entry (q_id q)]
            | Some a \<Rightarrow> [answered_entry (Number_toString (q_id q), a)])"
  by (simp add: build_payload_def push_unanswered_eq answered_part [OF assms(3)]
      unanswered_part [OF assms(1,2)] split: option.splits)

text \<open>
  C10, as claimed, holds for every quiz and every answers state. It fails in two ways.
  The type of a quiz lets two questions carry the same id: for the quiz with questions
  1, 1, 2, 2 and an answer recorded for id 1 only, the payload holds three entries for
  four questions, a single entry for id 1 and two entries for id 2. And an id need not
  survive the way through the property key: for the quiz whose one question has id
  \<open>10^21\<close>, answered, the key is \<^verbatim>\<open>1e+21\<close>, the one entry of the payload carries
  \<^verbatim>\<open>question_id\<close> 1, and no entry carries the id of the question.
\<close>

theorem handleSubmit_duplicate_or_unsafe_ids:
  "handleSubmit (Some ''tok'') (quiz_of [question1, question1, question2, question2]) one_answer =
     Inr \<lparr>quiz_id = 5,
          answers = [\<lparr>question_id = Some 1, selected_option_ids = None,
                      selected_answer_bool = Some True\<rparr>,
                     unanswered_entry 2, unanswered_entry 2]\<rparr>
   \<and> length (questions (quiz_of [question1, question1, question2, question2])) = 4
   \<and> length (filter (\<lambda>e. question_id e = Some (q_id question2))
        (answers (build_payload (quiz_of [question1, question1, question2, question2]) one_answer)))
       = 2
   \<and> handleSubmit (Some ''tok'') (quiz_of [big_question]) big_answer =
       Inr \<lparr>quiz_id = 5,
            answers = [\<lparr>question_id = Some 1, selected_option_ids = None,
                        selected_answer_bool = Some True\<rparr>]\<rparr>
   \<and> q_id big_question = 1000000000000000000000
   \<and> filter (\<lambda>e. question_id e = Some (q_id big_question))
        (answers (build_payload (quiz_of [big_question]) big_answer)) = []"
  by (simp add: handleSubmit_def build_payload_def quiz_of_def question1_def question2_def
      big_question_def one_answer_def big_answer_def Object_entries_eq
      sorted_list_of_fset_single unanswered_entry_def answered_entry_def
      Number_toString_big parseInt10_big Number_toString_1 parseInt10_1)

text \<open>
  C10, amended. For every quiz whose questions have pairwise distinct ids and every
  answers state whose keys are safe integers, \<^verbatim>\<open>handleSubmit\<close> (with a session access
  token) builds a payload for the quiz that holds exactly one entry for each question
  of the quiz: for an answered question the entry carries the selected options, or null
  when the selection is empty or missing, and the selected boolean; for a question
  without a recorded answer both fields are null.
\<close>

theorem handleSubmit_one_entry_per_question:
  assumes "truthy_string session_accessToken"
    and "distinct (map q_id (questions quiz))"
    and "\<forall>k. k |\<in>| fmdom ans \<longrightarrow> safe_integer k"
    and "q \<in> set (questions quiz)"
  shows "handleSubmit session_accessToken quiz ans = Inr (build_payload quiz ans)
       \<and> quiz_id (build_payload quiz ans) = quiz_rid quiz
       \<and> (\<exists>entry. filter (\<lambda>e. question_id e = Some (q_id q)) (answers (build_payload quiz ans))
                     = [entry]
            \<and> (case fmlookup ans (q_id q) of
                 None \<Rightarrow> selected_option_ids entry = None \<and> selected_answer_bool entry = None
               | Some a \<Rightarrow>
                   selected_option_ids entry =
                     (case selectedOptionIds a of
                        None \<Rightarrow> None
                      | Some ids \<Rightarrow> if ids = [] then None else Some ids)
                   \<and> selected_answer_bool entry = selectedAnswerBool a))"
  using assms(1) entries_for_question [OF assms(2,4,3)]
  by (auto simp: handleSubmit_def build_payload_def answered_entry_def unanswered_entry_def
      split: option.splits)

theorem handleSubmit_one_entry_per_question_witness:
  "truthy_string (Some ''tok'')
   \<and> distinct (map q_id (questions (quiz_of [question1, question2])))
   \<and> fmdom one_answer = {|1|} \<and> safe_integer 1
   \<and> question2 \<in> set (questions (quiz_of [question1, question2]))
   \<and> handleSubmit (Some ''tok'') (quiz_of [question1, question2]) one_answer
       = Inr (build_payload (quiz_of [question1, question2]) one_answer)
   \<and> answers (build_payload (quiz_of [question1, question2]) one_answer)
       = [\<lparr>question_id = Some 1, selected_option_ids = None, selected_answer_bool = Some True\<rparr>,
          \<lparr>question_id = Some 2, selected_option_ids = None, selected_answer_bool = None\<rparr>]"
proof -
  have h1: "truthy_string (Some ''tok'')" by simp
  have h2: "distinct (map q_id (questions (quiz_of [question1, question2])))"
    by (simp add: quiz_of_def question1_def question2_def)
  have h3: "\<forall>k. k |\<in>| fmdom one_answer \<longrightarrow> safe_integer k"
    by (simp add: one_answer_def safe_integer_def)
  have h4: "question2 \<in> set (questions (quiz_of [question1, question2]))"
    by (simp add: quiz_of_def)
  have d: "fmdom one_answer = {|1|} \<and> safe_integer 1"
    by (simp add: one_answer_def safe_integer_def)
  have v: "answers (build_payload (quiz_of [question1, question2]) one_answer)
       = [\<lparr>question_id = Some 1, selected_option_ids = None, selected_answer_bool = Some True\<rparr>,
          \<lparr>question_id = Some 2, selected_option_ids = None, selected_answer_bool = None\<rparr>]"
    by (simp add: build_payload_def quiz_of_def question1_def question2_def one_answer_def
        Object_entries_eq sorted_list_of_fset_single unanswered_entry_def
        answered_entry_def Number_toString_1 parseInt10_1)
  show ?thesis
    using h1 h2 h4 d v
      handleSubmit_one_entry_per_question [OF h1 h2 h3 h4]
    by simp
qed

end
